theory Spec2Isabelle
  imports Main "HOL-Library.Sublist"
begin

section \<open>Data model of \<open>src/index.ts\<close>\<close>

text \<open>
  The plugin turns one markdown document into the text of a JavaScript module. Everything
  it calls from other packages (front-matter, markdown-it, node-html-parser, htmlparser2,
  dom-serializer, Babel, the Vue template compiler, \<open>JSON.stringify\<close>) is a parameter of
  the model; what is embedded here is the code of \<open>index.ts\<close> itself: the option
  resolution, the module emitter, the outline scan and the two tree rewrites.
\<close>

subsection \<open>Values\<close>

datatype Mode = TOC | HTML | REACT | VUE

datatype error = Error string

text \<open>A JavaScript value as \<open>JSON.stringify\<close> sees it.\<close>

datatype json =
    JNull
  | JBool bool
  | JNumber int
  | JString string
  | JArray "json list"
  | JObject "(string \<times> json) list"

text \<open>The second argument of \<open>addProperty\<close>, of type \<open>string | object\<close>.\<close>

datatype prop_value = Code string | Object json


fun propValue :: "json \<Rightarrow> prop_value" where
  "propValue (JString s) = Code s"
| "propValue v = Object v"

subsection \<open>Trees\<close>

text \<open>
  Attributes are a JavaScript object with string keys: an association list in insertion
  order. Assigning to a key that exists keeps its place, assigning to a new key appends,
  \<open>delete\<close> removes the key.
\<close>

type_synonym attribs = "(string \<times> string) list"

fun setAttribute :: "string \<Rightarrow> string \<Rightarrow> attribs \<Rightarrow> attribs" where
  "setAttribute k v [] = [(k, v)]"
| "setAttribute k v (p # ps) = (if fst p = k then (k, v) # ps else p # setAttribute k v ps)"

definition deleteAttribute :: "string \<Rightarrow> attribs \<Rightarrow> attribs" where
  "deleteAttribute k ps = filter (\<lambda>p. fst p \<noteq> k) ps"

text \<open>A node of node-html-parser, used by the outline scan and the Vue adapter.\<close>

datatype hnode =
    HTMLElement string attribs "hnode list"
  | TextNode string
  | CommentNode string

text \<open>A node of domhandler, used by the React adapter.\<close>

datatype dnode =
    Element string attribs "dnode list"
  | Text string
  | Comment string
  | Directive string string

text \<open>
  The node at a path of child indices below a list of top-level nodes; \<open>[i]\<close> is the
  \<open>i\<close>-th top-level node, \<open>[i, j]\<close> its \<open>j\<close>-th child.
\<close>

fun hnode_at :: "hnode list \<Rightarrow> nat list \<Rightarrow> hnode option" where
  "hnode_at ns [] = None"
| "hnode_at ns [i] = (if i < length ns then Some (ns ! i) else None)"
| "hnode_at ns (i # j # p) =
     (if i < length ns
      then (case ns ! i of HTMLElement t as cs \<Rightarrow> hnode_at cs (j # p) | _ \<Rightarrow> None)
      else None)"

fun dnode_at :: "dnode list \<Rightarrow> nat list \<Rightarrow> dnode option" where
  "dnode_at ns [] = None"
| "dnode_at ns [i] = (if i < length ns then Some (ns ! i) else None)"
| "dnode_at ns (i # j # p) =
     (if i < length ns
      then (case ns ! i of Element t as cs \<Rightarrow> dnode_at cs (j # p) | _ \<Rightarrow> None)
      else None)"

text \<open>
  The same lookup, refusing to descend through a \<open>code\<close> element: the nodes the React
  walk can reach, since it empties every \<open>code\<close> element before recursing.
\<close>

fun dnode_outside_code :: "dnode list \<Rightarrow> nat list \<Rightarrow> dnode option" where
  "dnode_outside_code ns [] = None"
| "dnode_outside_code ns [i] = (if i < length ns then Some (ns ! i) else None)"
| "dnode_outside_code ns (i # j # p) =
     (if i < length ns
      then (case ns ! i of
              Element t as cs \<Rightarrow> if t = ''code'' then None else dnode_outside_code cs (j # p)
            | _ \<Rightarrow> None)
      else None)"

text \<open>A subtree without any \<open>pre\<close> or \<open>code\<close> element.\<close>

fun plain :: "dnode \<Rightarrow> bool" where
  "plain (Element t as cs) = (t \<notin> set [''pre'', ''code''] \<and> list_all plain cs)"
| "plain n = True"

subsection \<open>String operations of JavaScript\<close>

text \<open>\<open>Array.prototype.join\<close>.\<close>

fun join :: "string \<Rightarrow> string list \<Rightarrow> string" where
  "join sep [] = []"
| "join sep [x] = x"
| "join sep (x # y # ys) = x @ sep @ join sep (y # ys)"

text \<open>\<open>s.replace(pat, rep)\<close> with a string pattern: the first occurrence only.\<close>

fun replaceFirst :: "string \<Rightarrow> string \<Rightarrow> string \<Rightarrow> string" where
  "replaceFirst pat rep [] = (if pat = [] then rep else [])"
| "replaceFirst pat rep (c # cs) =
     (if prefix pat (c # cs) then rep @ drop (length pat) (c # cs)
      else c # replaceFirst pat rep cs)"

text \<open>
  \<open>s.replace(/pat/g, rep)\<close> for a pattern that is a literal, non-empty text: every
  occurrence, scanning from the left, the scan resuming after each match.
\<close>

function replaceAll :: "string \<Rightarrow> string \<Rightarrow> string \<Rightarrow> string" where
  "replaceAll pat rep [] = []"
| "replaceAll pat rep (c # cs) =
     (if pat \<noteq> [] \<and> prefix pat (c # cs)
      then rep @ replaceAll pat rep (drop (length pat) (c # cs))
      else c # replaceAll pat rep cs)"
  by pat_completeness auto
termination
  by (relation "measure (\<lambda>(pat, rep, s). length s)") auto

section \<open>Options and renderer resolution\<close>

text \<open>\<open>MarkdownIt.Options\<close>; an absent key is \<open>None\<close>.\<close>

record MarkdownItOptions =
  html :: "bool option"
  xhtmlOut :: "bool option"
  breaks :: "bool option"
  langPrefix :: "string option"
  linkify :: "bool option"
  typographer :: "bool option"
  quotes :: "string option"

text \<open>
  \<open>PluginOptions\<close>. \<open>markdownIt\<close> is a \<open>MarkdownIt\<close> instance (\<open>Inl\<close>) or a
  \<open>MarkdownIt.Options\<close> object (\<open>Inr\<close>); a render function may throw.
\<close>

record 'md PluginOptions =
  mode :: "Mode list option"
  markdown :: "(string \<Rightarrow> error + string) option"
  markdownIt :: "('md + MarkdownItOptions) option"

text \<open>\<open>options.mode?.includes(m)\<close>: \<open>undefined\<close> when \<open>mode\<close> is absent.\<close>

definition mode_includes :: "Mode list option \<Rightarrow> Mode \<Rightarrow> bool option" where
  "mode_includes ms m = map_option (\<lambda>xs. m \<in> set xs) ms"

definition truthy :: "bool option \<Rightarrow> bool" where
  "truthy b = (b = Some True)"

datatype 'md compiler =
    Renderer 'md
  | CustomRender "string \<Rightarrow> error + string"

text \<open>
  \<open>markdownCompiler\<close>, with the \<open>MarkdownIt\<close> constructor as the parameter \<open>ctor\<close>.
  Both alternatives of the type of \<open>markdownIt\<close> are objects, so one of the two inner
  branches is always taken when the option is present.
\<close>

definition markdownCompiler ::
  "(MarkdownItOptions \<Rightarrow> 'md) \<Rightarrow> 'md PluginOptions \<Rightarrow> 'md compiler" where
  "markdownCompiler ctor options =
     (case markdownIt options of
        Some (Inl inst) \<Rightarrow> Renderer inst
      | Some (Inr cfg) \<Rightarrow> Renderer (ctor cfg)
      | None \<Rightarrow>
          (case markdown options of
             Some f \<Rightarrow> CustomRender f
           | None \<Rightarrow>
               Renderer (ctor \<lparr> html = Some True, xhtmlOut = mode_includes (mode options) REACT,
                                breaks = None, langPrefix = None, linkify = None,
                                typographer = None, quotes = None \<rparr>)))"

section \<open>The module emitter\<close>

record ExportedContent =
  exports :: string
  contextCode :: string

definition newExportedContent :: ExportedContent where
  "newExportedContent = \<lparr> exports = [], contextCode = [] \<rparr>"

text \<open>
  \<open>addProperty\<close>; \<open>stringify\<close> is \<open>JSON.stringify\<close>. The context code is added when it
  is truthy: present and not the empty string.
\<close>

definition addProperty ::
  "(json \<Rightarrow> string) \<Rightarrow> ExportedContent \<Rightarrow> string \<Rightarrow> prop_value \<Rightarrow> string option
     \<Rightarrow> ExportedContent" where
  \<open>addProperty stringify c key val ctx =
     (let exportedContent = (case val of Code s \<Rightarrow> s | Object v \<Rightarrow> stringify v);
          c1 = c \<lparr> exports := exports c @ ''export const '' @ key @ '' = '' @ exportedContent
                                  @ ''\<newline>'' \<rparr>
      in case ctx of
           None \<Rightarrow> c1
         | Some x \<Rightarrow> if x \<noteq> [] then c1 \<lparr> contextCode := contextCode c1 @ x @ ''\<newline>'' \<rparr>
                     else c1)\<close>

text \<open>\<open>export()\<close>: the two texts joined by a newline.\<close>

definition export :: "ExportedContent \<Rightarrow> string" where
  \<open>export c = join ''\<newline>'' [contextCode c, exports c]\<close>

text \<open>
  A call of \<open>addProperty\<close> is a key, a value and an optional context code. \<open>addAll\<close>
  makes a sequence of calls on one object; \<open>exportStatement\<close> and \<open>contextStatement\<close>
  are the two lines one call stands for in the module text.
\<close>

type_synonym call = "string \<times> prop_value \<times> string option"

definition addAll :: "(json \<Rightarrow> string) \<Rightarrow> ExportedContent \<Rightarrow> call list \<Rightarrow> ExportedContent" where
  "addAll stringify c calls =
     foldl (\<lambda>c (key, val, ctx). addProperty stringify c key val ctx) c calls"

definition exportStatement :: "(json \<Rightarrow> string) \<Rightarrow> call \<Rightarrow> string" where
  \<open>exportStatement stringify call =
     (case call of (key, val, ctx) \<Rightarrow>
        ''export const '' @ key @ '' = '' @ (case val of Code s \<Rightarrow> s | Object v \<Rightarrow> stringify v)
        @ ''\<newline>'')\<close>

definition contextStatement :: "call \<Rightarrow> string" where
  \<open>contextStatement call =
     (case call of (key, val, ctx) \<Rightarrow>
        (case ctx of None \<Rightarrow> [] | Some x \<Rightarrow> if x = [] then [] else x @ ''\<newline>''))\<close>

section \<open>The outline scan\<close>

record TocEntry =
  level :: string
  content :: string

text \<open>The filter of the outline scan: an element whose tag name is one of the six.\<close>

definition isHeading :: "hnode \<Rightarrow> bool" where
  "isHeading childNode =
     (case childNode of
        HTMLElement t as cs \<Rightarrow> t \<in> set [''h1'', ''h2'', ''h3'', ''h4'', ''h5'', ''h6'']
      | _ \<Rightarrow> False)"

text \<open>
  The entry of one kept node. \<open>toString\<close> is the serializer of node-html-parser;
  \<open>childNodes\<close> is a plain array, whose \<open>toString()\<close> joins the elements' texts with
  commas. The last branch is never reached: the filter keeps elements only.
\<close>

definition tocEntry :: "(hnode \<Rightarrow> string) \<Rightarrow> hnode \<Rightarrow> TocEntry" where
  "tocEntry toString index =
     (case index of
        HTMLElement t as cs \<Rightarrow>
          \<lparr> level = replaceFirst ''h'' [] t, content = join '','' (map toString cs) \<rparr>
      | _ \<Rightarrow> \<lparr> level = [], content = [] \<rparr>)"

definition toc :: "(hnode \<Rightarrow> string) \<Rightarrow> hnode list \<Rightarrow> TocEntry list" where
  "toc toString root = map (tocEntry toString) (filter isHeading root)"

text \<open>The outline as the value handed to \<open>JSON.stringify\<close>.\<close>

definition tocValue :: "TocEntry list \<Rightarrow> json" where
  "tocValue es =
     JArray (map (\<lambda>e. JObject [(''level'', JString (level e)), (''content'', JString (content e))]) es)"

section \<open>The React adapter\<close>

text \<open>
  \<open>markCodeAsPre\<close> of the React branch. \<open>outer\<close> is \<open>DomUtils.getOuterHTML\<close> on one node;
  \<open>DomUtils.getInnerHTML\<close> is the concatenation of the children's outer HTML. The test
  \<open>node.attribs?.class\<close> is a truthiness test: the key is present and its value is not
  the empty string.
\<close>

fun markCodeAsPre_react :: "(dnode \<Rightarrow> string) \<Rightarrow> dnode \<Rightarrow> dnode" where
  \<open>markCodeAsPre_react outer (Element t as cs) =
     (let as1 = (case map_of as ''class'' of
                   Some v \<Rightarrow>
                     if t \<in> set [''pre'', ''code''] \<and> v \<noteq> []
                     then deleteAttribute ''class'' (setAttribute ''className'' v as)
                     else as
                 | None \<Rightarrow> as)
      in if t = ''code''
         then Element t
                (setAttribute ''dangerouslySetInnerHTML''
                   (''vfm{{ __html: `'' @ concat (map outer cs) @ ''`}}vfm'') as1) []
         else Element t as1 (map (markCodeAsPre_react outer) cs))\<close>
| \<open>markCodeAsPre_react outer n = n\<close>

text \<open>The two substitutions applied to the serialized tree.\<close>

definition stripMarkers :: "string \<Rightarrow> string" where
  \<open>stripMarkers s = replaceAll ''}}vfm"'' ''}}'' (replaceAll ''"vfm{{'' ''{{'' s)\<close>

definition reactHtml :: "(dnode \<Rightarrow> string) \<Rightarrow> dnode list \<Rightarrow> string" where
  "reactHtml outer root = stripMarkers (concat (map outer (map (markCodeAsPre_react outer) root)))"

definition reactCode :: "string \<Rightarrow> string" where
  \<open>reactCode h =
     ''\<newline>          const markdown =\<newline>            <div>\<newline>              '' @ h
     @ ''\<newline>            </div>\<newline>        ''\<close>

definition compiledReactCode :: "string \<Rightarrow> string" where
  \<open>compiledReactCode code =
     ''\<newline>          function (props) {\<newline>            Object.keys(props).forEach(function (key) {\<newline>              this[key] = props[key]\<newline>            })\<newline>            ''
     @ code @ ''\<newline>            return markdown\<newline>          }\<newline>        ''\<close>

section \<open>The Vue adapter\<close>

text \<open>The first loop, over the top-level nodes only.\<close>

definition markTopLevel :: "hnode \<Rightarrow> hnode" where
  "markTopLevel childNode =
     (case childNode of
        HTMLElement t as cs \<Rightarrow>
          if t \<in> set [''pre'', ''code''] then HTMLElement t (setAttribute ''v-pre'' ''true'' as) cs
          else childNode
      | _ \<Rightarrow> childNode)"

text \<open>\<open>markCodeAsPre\<close> of the Vue branch.\<close>

fun markCodeAsPre_vue :: "hnode \<Rightarrow> hnode" where
  "markCodeAsPre_vue (HTMLElement t as cs) =
     HTMLElement t (if t = ''code'' then setAttribute ''v-pre'' ''true'' as else as)
       (map markCodeAsPre_vue cs)"
| "markCodeAsPre_vue n = n"

definition vueTree :: "hnode list \<Rightarrow> hnode list" where
  "vueTree root = map markCodeAsPre_vue (map markTopLevel root)"

section \<open>The transform\<close>

text \<open>
  The result of front-matter. \<open>attributes\<close> is declared an \<open>object\<close>, but it is what
  the YAML of the block loads to: a mapping as a rule, a string when the block is a
  scalar.
\<close>

record FrontMatterResult =
  attributes :: json
  body :: string

record ParseOptions =
  pre :: bool
  script :: bool
  comment :: bool
  style :: bool

text \<open>
  The functions of other packages. \<open>parse\<close> returns the child nodes of the root it
  builds, \<open>toString\<close> and \<open>getOuterHTML\<close> serialize one node, \<open>compileTemplate\<close> takes the
  source and the file name and returns the \<open>code\<close> of its result. Those that can throw
  return a sum.
\<close>

record 'md env =
  Frontmatter :: "string \<Rightarrow> error + FrontMatterResult"
  MarkdownIt :: "MarkdownItOptions \<Rightarrow> 'md"
  render :: "'md \<Rightarrow> string \<Rightarrow> error + string"
  stringify :: "json \<Rightarrow> string"
  parse :: "ParseOptions option \<Rightarrow> string \<Rightarrow> hnode list"
  toString :: "hnode \<Rightarrow> string"
  parseDOM :: "string \<Rightarrow> dnode list"
  getOuterHTML :: "dnode \<Rightarrow> string"
  transformSync :: "string \<Rightarrow> error + string"
  compileTemplate :: "string \<Rightarrow> string \<Rightarrow> error + string"

text \<open>\<open>markdownCompiler(options).render(body)\<close>.\<close>

definition renderBody :: "'md env \<Rightarrow> 'md compiler \<Rightarrow> string \<Rightarrow> error + string" where
  "renderBody E c b = (case c of Renderer md \<Rightarrow> render E md b | CustomRender f \<Rightarrow> f b)"

definition tocStep :: "'md env \<Rightarrow> string \<Rightarrow> ExportedContent \<Rightarrow> ExportedContent" where
  "tocStep E rendered c =
     addProperty (stringify E) c ''toc''
       (propValue (tocValue (toc (toString E) (parse E None rendered)))) None"

definition reactStep :: "'md env \<Rightarrow> string \<Rightarrow> ExportedContent \<Rightarrow> error + ExportedContent" where
  \<open>reactStep E rendered c =
     (let h = reactHtml (getOuterHTML E) (parseDOM E rendered)
      in case transformSync E (reactCode h) of
           Inl e \<Rightarrow> Inl e
         | Inr code \<Rightarrow>
             Inr (addProperty (stringify E) c ''ReactComponent'' (Code (compiledReactCode code))
                    (Some ''import React from "react"'')))\<close>

definition vueStep ::
  "'md env \<Rightarrow> string \<Rightarrow> string \<Rightarrow> ExportedContent \<Rightarrow> error + ExportedContent" where
  \<open>vueStep E path rendered c =
     (let root = vueTree (parse E (Some \<lparr> pre = True, script = True, comment = True, style = True \<rparr>)
                            rendered)
      in case compileTemplate E (concat (map (toString E) root)) path of
           Inl e \<Rightarrow> Inl e
         | Inr compiledVueCode \<Rightarrow>
             Inr (addProperty (stringify E) c ''VueComponent'' (Code ''{ render: vueRender }'')
                    (Some (replaceFirst ''\<newline>export function render('' ''\<newline>function vueRender(''
                             compiledVueCode))))\<close>

text \<open>\<open>test\<close>: the transform applies to paths ending in \<open>.md\<close>.\<close>

definition test :: "string \<Rightarrow> bool" where
  "test path = suffix ''.md'' path"

text \<open>
  The body of \<open>transform\<close> up to its \<open>return\<close>: the content object, or the error of the
  first call that throws. Nothing in the function catches.
\<close>

definition transformContent ::
  "'md env \<Rightarrow> 'md PluginOptions \<Rightarrow> string \<Rightarrow> string \<Rightarrow> error + ExportedContent" where
  "transformContent E options code path =
     (case Frontmatter E code of
        Inl e \<Rightarrow> Inl e
      | Inr fm \<Rightarrow>
          (let c0 = addProperty (stringify E) newExportedContent ''attributes''
                      (propValue (attributes fm)) None
           in (case renderBody E (markdownCompiler (MarkdownIt E) options) (body fm) of
                 Inl e \<Rightarrow> Inl e
               | Inr rendered \<Rightarrow>
                   (let c1 = (if truthy (mode_includes (mode options) HTML)
                              then addProperty (stringify E) c0 ''html''
                                     (Code (stringify E (JString rendered))) None
                              else c0);
                        c2 = (if truthy (mode_includes (mode options) TOC)
                              then tocStep E rendered c1 else c1)
                    in (case (if truthy (mode_includes (mode options) REACT)
                              then reactStep E rendered c2 else Inr c2) of
                          Inl e \<Rightarrow> Inl e
                        | Inr c3 \<Rightarrow>
                            (if truthy (mode_includes (mode options) VUE)
                             then vueStep E path rendered c3 else Inr c3))))))"

text \<open>\<open>transform\<close>: the module text is \<open>content.export()\<close>.\<close>

definition transform :: "'md env \<Rightarrow> 'md PluginOptions \<Rightarrow> string \<Rightarrow> string \<Rightarrow> error + string" where
  "transform E options code path =
     (case transformContent E options code path of
        Inl e \<Rightarrow> Inl e
      | Inr c \<Rightarrow> Inr (export c))"

section \<open>Stand-ins for the other packages\<close>

text \<open>
  Every theorem below holds for any serializer, parser and compiler. To evaluate the
  model on a concrete document, the following stand-ins are used.

  \<open>outerHTML\<close> writes a node as dom-serializer does when it is called without options,
  as the adapter calls it: an attribute as \<open>name="value"\<close> with every double quote of the
  value written \<open>&quot;\<close>, an attribute with an empty value as its bare name, text as it
  is, and no closing tag for a void element.
\<close>

definition singleTag :: "string list" where
  "singleTag = [''area'', ''base'', ''basefont'', ''br'', ''col'', ''command'', ''embed'',
     ''frame'', ''hr'', ''img'', ''input'', ''isindex'', ''keygen'', ''link'', ''meta'',
     ''param'', ''source'', ''track'', ''wbr'']"

definition attribsText :: "attribs \<Rightarrow> string" where
  \<open>attribsText as =
     concat (map (\<lambda>(k, v). '' '' @ k @
                    (if v = [] then [] else ''="'' @ replaceAll ''"'' ''&quot;'' v @ ''"'')) as)\<close>

fun outerHTML :: "dnode \<Rightarrow> string" where
  "outerHTML (Element t as cs) =
     ''<'' @ t @ attribsText as @ ''>'' @ concat (map outerHTML cs)
     @ (if t \<in> set singleTag then [] else ''</'' @ t @ ''>'')"
| "outerHTML (Text d) = d"
| "outerHTML (Comment d) = ''<!--'' @ d @ ''-->''"
| "outerHTML (Directive n d) = ''<'' @ d @ ''>''"


text \<open>
  \<open>hnodeText\<close> writes a node as node-html-parser does, for elements that are not void
  and attribute values without quotes and backslashes: \<open><tag name="value" ...>\<close>, the
  children, the closing tag; text and comments as they are.
\<close>

definition rawAttrsText :: "attribs \<Rightarrow> string" where
  \<open>rawAttrsText as = concat (map (\<lambda>(k, v). '' '' @ k @ ''="'' @ v @ ''"'') as)\<close>

fun hnodeText :: "hnode \<Rightarrow> string" where
  "hnodeText (HTMLElement t as cs) =
     ''<'' @ t @ rawAttrsText as @ ''>'' @ concat (map hnodeText cs) @ ''</'' @ t @ ''>''"
| "hnodeText (TextNode d) = d"
| "hnodeText (CommentNode d) = ''<!--'' @ d @ ''-->''"

text \<open>
  A printer of objects whose values are strings, written without escapes; enough for
  the metadata of the sample documents.
\<close>

fun flatStringify :: "json \<Rightarrow> string" where
  \<open>flatStringify (JObject kvs) =
     ''{'' @ join '','' (map (\<lambda>(k, v). ''"'' @ k @ ''":'' @
                                (case v of JString x \<Rightarrow> ''"'' @ x @ ''"'' | _ \<Rightarrow> ''null'')) kvs)
     @ ''}''\<close>
| \<open>flatStringify (JString x) = ''"'' @ x @ ''"''\<close>
| \<open>flatStringify v = ''null''\<close>

text \<open>
  A sample environment: the document is its own body and has the metadata
  \<open>{"title":"T"}\<close> unless it starts with an unterminated \<open>---\<close> block line \<open>---:\<close>, the
  renderer and the two compilers return their input, the parsers return one text node.
\<close>

definition sampleEnv :: "MarkdownItOptions env" where
  "sampleEnv =
     \<lparr> Frontmatter = (\<lambda>code. if prefix ''---:'' code then Inl (Error ''YAMLException'')
                              else Inr \<lparr> attributes = JObject [(''title'', JString ''T'')],
                                        body = code \<rparr>),
       MarkdownIt = (\<lambda>cfg. cfg),
       render = (\<lambda>md b. Inr b),
       stringify = flatStringify,
       parse = (\<lambda>opts s. [TextNode s]),
       toString = hnodeText,
       parseDOM = (\<lambda>s. [Text s]),
       getOuterHTML = outerHTML,
       transformSync = (\<lambda>s. Inr s),
       compileTemplate = (\<lambda>src file. Inr src) \<rparr>"



section \<open>Properties of the module emitter\<close>

lemma addProperty_exports:
  "exports (addProperty S c k v x) = exports c @ exportStatement S (k, v, x)"
  by (simp add: addProperty_def exportStatement_def Let_def split: option.splits)

lemma addProperty_contextCode:
  "contextCode (addProperty S c k v x) = contextCode c @ contextStatement (k, v, x)"
  by (simp add: addProperty_def contextStatement_def Let_def split: option.splits)

lemma addAll_exports:
  "exports (addAll S c calls) = exports c @ concat (map (exportStatement S) calls)"
  unfolding addAll_def
  by (induction calls arbitrary: c) (auto simp: addProperty_exports)

lemma addAll_contextCode:
  "contextCode (addAll S c calls) = contextCode c @ concat (map contextStatement calls)"
  unfolding addAll_def
  by (induction calls arbitrary: c) (auto simp: addProperty_contextCode)

text \<open>
  Claim C8. For every sequence of \<open>addProperty\<close> calls on a new \<open>ExportedContent\<close>, the
  serialized module text is the context statements of the calls that gave one, in the
  order of the calls, then the newline that joins the two parts, then the export
  statements of all calls, in the order of the calls.
\<close>

theorem export_order:
  \<open>export (addAll S newExportedContent calls) =
     concat (map contextStatement calls) @ ''\<newline>'' @ concat (map (exportStatement S) calls)\<close>
  by (simp add: export_def addAll_exports addAll_contextCode newExportedContent_def)

theorem export_order_witness:
  \<open>export (addAll flatStringify newExportedContent
      [(''attributes'', Object (JObject []), None),
       (''ReactComponent'', Code ''f'', Some ''import React from "react"''),
       (''VueComponent'', Code ''{ render: vueRender }'', Some ''function vueRender() {}'')]) =
    ''import React from "react"\<newline>function vueRender() {}\<newline>\<newline>export const attributes = {}\<newline>export const ReactComponent = f\<newline>export const VueComponent = { render: vueRender }\<newline>''\<close>
  using export_order [of flatStringify \<open>[(''attributes'', Object (JObject []), None),
       (''ReactComponent'', Code ''f'', Some ''import React from "react"''),
       (''VueComponent'', Code ''{ render: vueRender }'', Some ''function vueRender() {}'')]\<close>]
  by (simp add: contextStatement_def exportStatement_def)

section \<open>Properties of the renderer resolution\<close>

text \<open>
  Claim C7. A supplied renderer instance is returned as it is; a supplied configuration
  object is handed to the constructor of the default renderer; the custom render
  function is the result only when no instance and no configuration is supplied, and
  then it is; with none of the three, the default renderer is constructed with \<open>html\<close>
  set, and with \<open>xhtmlOut\<close> truthy exactly when \<open>mode\<close> is given and includes \<open>REACT\<close>.
\<close>

theorem markdownCompiler_resolution:
  "(markdownIt options = Some (Inl inst) \<longrightarrow> markdownCompiler ctor options = Renderer inst)
   \<and> (markdownIt options = Some (Inr cfg) \<longrightarrow> markdownCompiler ctor options = Renderer (ctor cfg))
   \<and> (markdownCompiler ctor options = CustomRender f \<longrightarrow>
        markdownIt options = None \<and> markdown options = Some f)
   \<and> (markdownIt options = None \<and> markdown options = Some f \<longrightarrow>
        markdownCompiler ctor options = CustomRender f)
   \<and> (markdownIt options = None \<and> markdown options = None \<longrightarrow>
        (\<exists>cfg. markdownCompiler ctor options = Renderer (ctor cfg)
               \<and> html cfg = Some True
               \<and> (truthy (xhtmlOut cfg) \<longleftrightarrow> (\<exists>ms. mode options = Some ms \<and> REACT \<in> set ms))))"
  by (auto simp: markdownCompiler_def mode_includes_def truthy_def
           split: option.splits sum.splits)

theorem markdownCompiler_resolution_witness:
  "markdownCompiler (\<lambda>cfg. cfg)
      \<lparr> mode = Some [REACT], markdown = Some (\<lambda>b. Inr b),
        markdownIt = Some (Inl \<lparr> html = None, xhtmlOut = None, breaks = Some True, langPrefix = None,
                                 linkify = None, typographer = None, quotes = None \<rparr>) \<rparr>
     = Renderer \<lparr> html = None, xhtmlOut = None, breaks = Some True, langPrefix = None,
                  linkify = None, typographer = None, quotes = None \<rparr>
   \<and> markdownCompiler (\<lambda>cfg. cfg \<lparr> langPrefix := Some ''language-'' \<rparr>)
      \<lparr> mode = None, markdown = Some (\<lambda>b. Inr b),
        markdownIt = Some (Inr \<lparr> html = None, xhtmlOut = None, breaks = Some True, langPrefix = None,
                                 linkify = None, typographer = None, quotes = None \<rparr>) \<rparr>
     = Renderer \<lparr> html = None, xhtmlOut = None, breaks = Some True, langPrefix = Some ''language-'',
                  linkify = None, typographer = None, quotes = None \<rparr>
   \<and> markdownCompiler (\<lambda>cfg. cfg)
      \<lparr> mode = Some [REACT], markdown = Some (\<lambda>b. Inr (b @ ''!'')), markdownIt = None \<rparr>
     = CustomRender (\<lambda>b. Inr (b @ ''!''))
   \<and> (\<exists>cfg. markdownCompiler (\<lambda>cfg. cfg)
              \<lparr> mode = Some [TOC, REACT], markdown = None, markdownIt = None \<rparr> = Renderer cfg
            \<and> html cfg = Some True \<and> truthy (xhtmlOut cfg))
   \<and> (\<exists>cfg. markdownCompiler (\<lambda>cfg. cfg)
              \<lparr> mode = None, markdown = None, markdownIt = None \<rparr> = Renderer cfg
            \<and> html cfg = Some True \<and> \<not> truthy (xhtmlOut cfg))"
  using
    markdownCompiler_resolution [where ctor = "\<lambda>cfg. cfg" and options =
      "\<lparr> mode = Some [REACT], markdown = Some (\<lambda>b. Inr b),
        markdownIt = Some (Inl \<lparr> html = None, xhtmlOut = None, breaks = Some True, langPrefix = None,
                                 linkify = None, typographer = None, quotes = None \<rparr>) \<rparr>"
      and inst = "\<lparr> html = None, xhtmlOut = None, breaks = Some True, langPrefix = None,
                                 linkify = None, typographer = None, quotes = None \<rparr>"]
    markdownCompiler_resolution [where ctor = "\<lambda>cfg. cfg \<lparr> langPrefix := Some ''language-'' \<rparr>"
      and options =
      "\<lparr> mode = None, markdown = Some (\<lambda>b. Inr b),
        markdownIt = Some (Inr \<lparr> html = None, xhtmlOut = None, breaks = Some True, langPrefix = None,
                                 linkify = None, typographer = None, quotes = None \<rparr>) \<rparr>"
      and cfg = "\<lparr> html = None, xhtmlOut = None, breaks = Some True, langPrefix = None,
                                 linkify = None, typographer = None, quotes = None \<rparr>"]
    markdownCompiler_resolution [where ctor = "\<lambda>cfg. cfg" and options =
      "\<lparr> mode = Some [REACT], markdown = Some (\<lambda>b. Inr (b @ ''!'')), markdownIt = None \<rparr>"
      and f = "\<lambda>b. Inr (b @ ''!'')"]
    markdownCompiler_resolution [where ctor = "\<lambda>cfg. cfg" and options =
      "\<lparr> mode = Some [TOC, REACT], markdown = None, markdownIt = None \<rparr>"]
    markdownCompiler_resolution [where ctor = "\<lambda>cfg. cfg" and options =
      "\<lparr> mode = None, markdown = None, markdownIt = None \<rparr>"]
  by simp

section \<open>Properties of the transform\<close>

text \<open>
  Claim C5. When the frontmatter parser throws on the document, \<open>transform\<close> ends with
  that same error, whatever the options: the result is the error and no module text.
\<close>

theorem frontmatter_error_propagates:
  assumes "Frontmatter E code = Inl e"
  shows "transform E options code path = Inl e"
  using assms by (simp add: transform_def transformContent_def)

theorem frontmatter_error_propagates_witness:
  "Frontmatter sampleEnv ''---:'' = Inl (Error ''YAMLException'')
   \<and> transform sampleEnv \<lparr> mode = Some [HTML, TOC, REACT, VUE], markdown = None, markdownIt = None \<rparr>
        ''---:'' ''a.md'' = Inl (Error ''YAMLException'')"
proof -
  have h: "Frontmatter sampleEnv ''---:'' = Inl (Error ''YAMLException'')"
    by (simp add: sampleEnv_def)
  show ?thesis using h frontmatter_error_propagates [OF h] by simp
qed





lemma addProperty_exports_prefix:
  "prefix x (exports c) \<Longrightarrow> prefix x (exports (addProperty S c k v ctx))"
  by (simp add: addProperty_exports)

lemma reactStep_exports_prefix:
  "prefix x (exports c) \<Longrightarrow> reactStep E r c = Inr c' \<Longrightarrow> prefix x (exports c')"
  by (auto simp: reactStep_def Let_def addProperty_exports split: sum.splits)

lemma vueStep_exports_prefix:
  "prefix x (exports c) \<Longrightarrow> vueStep E p r c = Inr c' \<Longrightarrow> prefix x (exports c')"
  by (auto simp: vueStep_def Let_def addProperty_exports split: sum.splits)

lemma tocStep_exports_prefix:
  "prefix x (exports c) \<Longrightarrow> prefix x (exports (tocStep E r c))"
  by (simp add: tocStep_def addProperty_exports)

text \<open>
  Claim C9. When the frontmatter parses to a mapping and the transform returns a module
  text, that text is the context part, a newline and the export part, and the export
  part starts with the statement \<open>export const attributes = \<close> followed by the JSON
  serialization of the parsed mapping and a newline.
\<close>

theorem attributes_export:
  assumes "Frontmatter E code = Inr fm"
    and "attributes fm = JObject kvs"
    and "transform E options code path = Inr text"
  shows \<open>\<exists>c. transformContent E options code path = Inr c
            \<and> text = contextCode c @ ''\<newline>'' @ exports c
            \<and> prefix (''export const attributes = '' @ stringify E (JObject kvs) @ ''\<newline>'')
                 (exports c)\<close>
proof -
  from assms(3) obtain c where c: "transformContent E options code path = Inr c"
    and t: "text = export c"
    by (auto simp: transform_def split: sum.splits)
  define x where \<open>x = ''export const attributes = '' @ stringify E (JObject kvs) @ ''\<newline>''\<close>
  define c0 where
    "c0 = addProperty (stringify E) newExportedContent ''attributes'' (propValue (attributes fm)) None"
  have p0: "prefix x (exports c0)"
    by (simp add: x_def c0_def addProperty_def newExportedContent_def assms(2))
  obtain rendered where
    r: "renderBody E (markdownCompiler (MarkdownIt E) options) (body fm) = Inr rendered"
    using c assms(1) by (auto simp: transformContent_def Let_def split: sum.splits)
  define c1 where
    "c1 = (if truthy (mode_includes (mode options) HTML)
           then addProperty (stringify E) c0 ''html'' (Code (stringify E (JString rendered))) None
           else c0)"
  define c2 where
    "c2 = (if truthy (mode_includes (mode options) TOC) then tocStep E rendered c1 else c1)"
  have p1: "prefix x (exports c1)"
    using p0 by (simp add: c1_def addProperty_exports_prefix)
  have p2: "prefix x (exports c2)"
    using p1 by (simp add: c2_def tocStep_exports_prefix)
  have eq: "transformContent E options code path =
      (case (if truthy (mode_includes (mode options) REACT) then reactStep E rendered c2 else Inr c2) of
         Inl e \<Rightarrow> Inl e
       | Inr c3 \<Rightarrow>
           (if truthy (mode_includes (mode options) VUE) then vueStep E path rendered c3 else Inr c3))"
    unfolding transformContent_def c2_def c1_def c0_def using assms(1) r by (simp add: Let_def)
  obtain c3 where
    c3: "(if truthy (mode_includes (mode options) REACT) then reactStep E rendered c2 else Inr c2)
           = Inr c3"
    and c4: "(if truthy (mode_includes (mode options) VUE) then vueStep E path rendered c3 else Inr c3)
           = Inr c"
    using c unfolding eq by (cases "if truthy (mode_includes (mode options) REACT) then reactStep E rendered c2 else Inr c2") auto
  have p3: "prefix x (exports c3)"
    using p2 c3 by (auto split: if_splits intro: reactStep_exports_prefix)
  have "prefix x (exports c)"
    using p3 c4 by (auto split: if_splits intro: vueStep_exports_prefix)
  with c t show ?thesis by (simp add: export_def x_def)
qed

theorem attributes_export_witness:
  \<open>Frontmatter sampleEnv ''# Hi'' = Inr \<lparr> attributes = JObject [(''title'', JString ''T'')], body = ''# Hi'' \<rparr>
   \<and> transform sampleEnv \<lparr> mode = Some [HTML], markdown = None, markdownIt = None \<rparr> ''# Hi'' ''a.md''
       = Inr ''\<newline>export const attributes = {"title":"T"}\<newline>export const html = "# Hi"\<newline>''
   \<and> (\<exists>c. transformContent sampleEnv \<lparr> mode = Some [HTML], markdown = None, markdownIt = None \<rparr>
             ''# Hi'' ''a.md'' = Inr c
          \<and> prefix ''export const attributes = {"title":"T"}\<newline>'' (exports c))\<close>
proof -
  let ?fm = "\<lparr> attributes = JObject [(''title'', JString ''T'')], body = ''# Hi'' \<rparr>"
  let ?o = "\<lparr> mode = Some [HTML], markdown = None, markdownIt = None \<rparr> :: MarkdownItOptions PluginOptions"
  have f: "Frontmatter sampleEnv ''# Hi'' = Inr ?fm"
    by (simp add: sampleEnv_def)
  have a: "attributes ?fm = JObject [(''title'', JString ''T'')]"
    by simp
  have t: \<open>transform sampleEnv ?o ''# Hi'' ''a.md''
       = Inr ''\<newline>export const attributes = {"title":"T"}\<newline>export const html = "# Hi"\<newline>''\<close>
    by (simp add: transform_def transformContent_def sampleEnv_def renderBody_def
          markdownCompiler_def mode_includes_def truthy_def addProperty_def newExportedContent_def
          export_def Let_def)
  have s: \<open>stringify sampleEnv (JObject [(''title'', JString ''T'')]) = ''{"title":"T"}''\<close>
    by (simp add: sampleEnv_def)
  obtain c where c: "transformContent sampleEnv ?o ''# Hi'' ''a.md'' = Inr c"
    and p: \<open>prefix (''export const attributes = ''
                @ stringify sampleEnv (JObject [(''title'', JString ''T'')]) @ ''\<newline>'')
              (exports c)\<close>
    using attributes_export [OF f a t] by blast
  have \<open>prefix ''export const attributes = {"title":"T"}\<newline>'' (exports c)\<close>
    using p unfolding s by simp
  with f t c show ?thesis by blast
qed

section \<open>Properties of the outline scan\<close>

lemma isHeading_cases:
  assumes "isHeading n"
  obtains t as cs where "n = HTMLElement t as cs"
    and "t \<in> set [''h1'', ''h2'', ''h3'', ''h4'', ''h5'', ''h6'']"
  using assms by (cases n) (auto simp: isHeading_def)

lemma join_short: "length xs \<le> 1 \<Longrightarrow> join sep xs = concat xs"
  by (cases xs) (auto simp: Suc_le_eq)

lemma toc_length: "length (toc ser root) = length (filter isHeading root)"
  by (simp add: toc_def)

text \<open>
  Claim C3, as amended. The \<open>i\<close>-th outline entry comes from the \<open>i\<close>-th top-level
  heading: its \<open>level\<close> is a string, the tag name without its \<open>h\<close>, one of the digits
  \<open>1\<close> to \<open>6\<close>; and when the heading has at most one child node, its \<open>content\<close> is the
  serialized child-node sequence.
\<close>

theorem toc_entry:
  assumes "i < length (toc ser root)"
  shows "\<exists>t as cs. filter isHeading root ! i = HTMLElement t as cs
           \<and> t = ''h'' @ level (toc ser root ! i)
           \<and> level (toc ser root ! i) \<in> set [''1'', ''2'', ''3'', ''4'', ''5'', ''6'']
           \<and> (length cs \<le> 1 \<longrightarrow> content (toc ser root ! i) = concat (map ser cs))"
proof -
  from assms have i: "i < length (filter isHeading root)"
    by (simp add: toc_length)
  then have "filter isHeading root ! i \<in> set (filter isHeading root)"
    by (rule nth_mem)
  then have "isHeading (filter isHeading root ! i)"
    by simp
  then obtain t as cs where n: "filter isHeading root ! i = HTMLElement t as cs"
    and t: "t \<in> set [''h1'', ''h2'', ''h3'', ''h4'', ''h5'', ''h6'']"
    by (rule isHeading_cases)
  have e: "toc ser root ! i = tocEntry ser (HTMLElement t as cs)"
    using i n by (simp add: toc_def)
  have l: "t = ''h'' @ level (toc ser root ! i)
      \<and> level (toc ser root ! i) \<in> set [''1'', ''2'', ''3'', ''4'', ''5'', ''6'']"
    using t unfolding e by (auto simp: tocEntry_def)
  have c: "length cs \<le> 1 \<longrightarrow> content (toc ser root ! i) = concat (map ser cs)"
    unfolding e by (simp add: tocEntry_def join_short)
  from n l c show ?thesis by blast
qed

theorem toc_entry_witness:
  "toc hnodeText [HTMLElement ''h2'' [] [TextNode ''A''], TextNode ''x'',
                  HTMLElement ''h3'' [] [TextNode ''B'']]
     = [\<lparr> level = ''2'', content = ''A'' \<rparr>, \<lparr> level = ''3'', content = ''B'' \<rparr>]
   \<and> (\<exists>t as cs. filter isHeading [HTMLElement ''h2'' [] [TextNode ''A''], TextNode ''x'',
                  HTMLElement ''h3'' [] [TextNode ''B'']] ! 1 = HTMLElement t as cs
        \<and> t = ''h3'' \<and> content (toc hnodeText [HTMLElement ''h2'' [] [TextNode ''A''], TextNode ''x'',
                  HTMLElement ''h3'' [] [TextNode ''B'']] ! 1) = concat (map hnodeText cs))"
proof -
  let ?root = "[HTMLElement ''h2'' [] [TextNode ''A''], TextNode ''x'',
                  HTMLElement ''h3'' [] [TextNode ''B'']]"
  have v: "toc hnodeText ?root = [\<lparr> level = ''2'', content = ''A'' \<rparr>, \<lparr> level = ''3'', content = ''B'' \<rparr>]"
    by (simp add: toc_def tocEntry_def isHeading_def)
  have i: "1 < length (toc hnodeText ?root)"
    unfolding v by simp
  from toc_entry [OF i] v show ?thesis
    by (auto simp: isHeading_def)
qed

text \<open>
  The claim as stated fails. For \<open><h2>A</h2>\<close> the entry is \<open>{"level":"2","content":"A"}\<close>,
  with a string for the level and not the number 2; and for \<open><h2>A <em>b</em></h2>\<close>
  the content is \<open>A ,<em>b</em>\<close>, the texts of the two child nodes joined by a comma,
  and not the inner markup \<open>A <em>b</em>\<close>.
\<close>

theorem toc_entry_counterexample:
  "tocValue (toc hnodeText [HTMLElement ''h2'' [] [TextNode ''A'']])
     = JArray [JObject [(''level'', JString ''2''), (''content'', JString ''A'')]]
   \<and> tocValue (toc hnodeText [HTMLElement ''h2'' [] [TextNode ''A'']])
     \<noteq> JArray [JObject [(''level'', JNumber 2), (''content'', JString ''A'')]]
   \<and> concat (map hnodeText [TextNode ''A '', HTMLElement ''em'' [] [TextNode ''b'']]) = ''A <em>b</em>''
   \<and> map content (toc hnodeText [HTMLElement ''h2'' [] [TextNode ''A '', HTMLElement ''em'' [] [TextNode ''b'']]])
     = [''A ,<em>b</em>'']"
  by (simp add: toc_def tocEntry_def tocValue_def isHeading_def rawAttrsText_def)



section \<open>Properties of the Vue adapter\<close>

lemma map_of_setAttribute:
  "map_of (setAttribute k v as) k' = (if k' = k then Some v else map_of as k')"
  by (induction as) auto


lemma setAttribute_twice: "setAttribute k v (setAttribute k v as) = setAttribute k v as"
  by (induction as) auto

lemma hnode_at_map_vue:
  "hnode_at (map markCodeAsPre_vue ns) p = map_option markCodeAsPre_vue (hnode_at ns p)"
proof (induction ns p rule: hnode_at.induct)
  case (3 ns i j p)
  show ?case
  proof (cases "i < length ns")
    case True
    then show ?thesis
      using "3.IH" by (cases "ns ! i") auto
  qed simp
qed auto

lemma hnode_at_map_top:
  "hnode_at (map markTopLevel ns) p =
     (if length p = 1 then map_option markTopLevel (hnode_at ns p) else hnode_at ns p)"
proof (induction ns p rule: hnode_at.induct)
  case (3 ns i j p)
  then show ?case
    by (cases "ns ! i") (auto simp: markTopLevel_def)
qed auto

lemma hnode_at_vueTree:
  "hnode_at (vueTree root) p =
     map_option (\<lambda>n. markCodeAsPre_vue (if length p = 1 then markTopLevel n else n))
       (hnode_at root p)"
  unfolding vueTree_def hnode_at_map_vue hnode_at_map_top
  by (cases "hnode_at root p") auto

text \<open>
  Claim C2. For every path \<open>p\<close> into the parsed tree: an element there that is a \<open>code\<close>
  at any depth, or a \<open>pre\<close> at the top level (a path of length 1), has \<open>v-pre="true"\<close>
  set in the result; any other element, in particular a \<open>pre\<close> below the top level,
  keeps its attributes as they were; text and comment nodes, and with them any \<open>{{ }}\<close>
  in a text, are the same in the result. The source handed to the template compiler is
  the serialization of exactly that tree, built from the document parsed with the four
  options set: the step ends with the compiler's error, or adds the \<open>VueComponent\<close>
  export with the compiler's code, renamed, as its context code.
\<close>

theorem vue_directive:
  \<open>(hnode_at root p = Some (HTMLElement t as cs) \<and> (t = ''code'' \<or> t = ''pre'' \<and> length p = 1) \<longrightarrow>
      hnode_at (vueTree root) p
        = Some (HTMLElement t (setAttribute ''v-pre'' ''true'' as) (map markCodeAsPre_vue cs))
      \<and> map_of (setAttribute ''v-pre'' ''true'' as) ''v-pre'' = Some ''true'')
   \<and> (hnode_at root p = Some (HTMLElement t as cs) \<and> t \<noteq> ''code'' \<and> (t = ''pre'' \<longrightarrow> 1 < length p) \<longrightarrow>
      hnode_at (vueTree root) p = Some (HTMLElement t as (map markCodeAsPre_vue cs)))
   \<and> (hnode_at root p = Some (TextNode d) \<longrightarrow> hnode_at (vueTree root) p = Some (TextNode d))
   \<and> (hnode_at root p = Some (CommentNode d) \<longrightarrow> hnode_at (vueTree root) p = Some (CommentNode d))
   \<and> (compileTemplate E
         (concat (map (toString E)
            (vueTree (parse E (Some \<lparr> pre = True, script = True, comment = True, style = True \<rparr>)
                        rendered))))
         path = Inr compiled \<longrightarrow>
       vueStep E path rendered c0
         = Inr (addProperty (stringify E) c0 ''VueComponent'' (Code ''{ render: vueRender }'')
                  (Some (replaceFirst ''\<newline>export function render('' ''\<newline>function vueRender(''
                           compiled))))
   \<and> (compileTemplate E
         (concat (map (toString E)
            (vueTree (parse E (Some \<lparr> pre = True, script = True, comment = True, style = True \<rparr>)
                        rendered))))
         path = Inl e \<longrightarrow>
       vueStep E path rendered c0 = Inl e)\<close>
proof -
  have tree: \<open>(hnode_at root p = Some (HTMLElement t as cs) \<and> (t = ''code'' \<or> t = ''pre'' \<and> length p = 1) \<longrightarrow>
      hnode_at (vueTree root) p
        = Some (HTMLElement t (setAttribute ''v-pre'' ''true'' as) (map markCodeAsPre_vue cs))
      \<and> map_of (setAttribute ''v-pre'' ''true'' as) ''v-pre'' = Some ''true'')
   \<and> (hnode_at root p = Some (HTMLElement t as cs) \<and> t \<noteq> ''code'' \<and> (t = ''pre'' \<longrightarrow> 1 < length p) \<longrightarrow>
      hnode_at (vueTree root) p = Some (HTMLElement t as (map markCodeAsPre_vue cs)))
   \<and> (hnode_at root p = Some (TextNode d) \<longrightarrow> hnode_at (vueTree root) p = Some (TextNode d))
   \<and> (hnode_at root p = Some (CommentNode d) \<longrightarrow> hnode_at (vueTree root) p = Some (CommentNode d))\<close>
    by (auto simp: hnode_at_vueTree markTopLevel_def setAttribute_twice map_of_setAttribute)
  have step: \<open>(compileTemplate E
         (concat (map (toString E)
            (vueTree (parse E (Some \<lparr> pre = True, script = True, comment = True, style = True \<rparr>)
                        rendered))))
         path = Inr compiled \<longrightarrow>
       vueStep E path rendered c0
         = Inr (addProperty (stringify E) c0 ''VueComponent'' (Code ''{ render: vueRender }'')
                  (Some (replaceFirst ''\<newline>export function render('' ''\<newline>function vueRender(''
                           compiled))))
   \<and> (compileTemplate E
         (concat (map (toString E)
            (vueTree (parse E (Some \<lparr> pre = True, script = True, comment = True, style = True \<rparr>)
                        rendered))))
         path = Inl e \<longrightarrow>
       vueStep E path rendered c0 = Inl e)\<close>
    by (simp add: vueStep_def Let_def)
  from tree step show ?thesis
    by (elim conjE) (intro conjI, assumption+)
qed

theorem vue_directive_witness:
  \<open>hnode_at (vueTree [HTMLElement ''pre'' [] [TextNode ''code1''],
                      HTMLElement ''p'' [] [TextNode ''{{ not a binding }}'',
                         HTMLElement ''code'' [] [TextNode ''c''], HTMLElement ''pre'' [] []]]) [0]
     = Some (HTMLElement ''pre'' [(''v-pre'', ''true'')] [TextNode ''code1''])
   \<and> hnode_at (vueTree [HTMLElement ''pre'' [] [TextNode ''code1''],
                      HTMLElement ''p'' [] [TextNode ''{{ not a binding }}'',
                         HTMLElement ''code'' [] [TextNode ''c''], HTMLElement ''pre'' [] []]]) [1, 1]
     = Some (HTMLElement ''code'' [(''v-pre'', ''true'')] [TextNode ''c''])
   \<and> hnode_at (vueTree [HTMLElement ''pre'' [] [TextNode ''code1''],
                      HTMLElement ''p'' [] [TextNode ''{{ not a binding }}'',
                         HTMLElement ''code'' [] [TextNode ''c''], HTMLElement ''pre'' [] []]]) [1, 2]
     = Some (HTMLElement ''pre'' [] [])
   \<and> hnode_at (vueTree [HTMLElement ''pre'' [] [TextNode ''code1''],
                      HTMLElement ''p'' [] [TextNode ''{{ not a binding }}'',
                         HTMLElement ''code'' [] [TextNode ''c''], HTMLElement ''pre'' [] []]]) [1, 0]
     = Some (TextNode ''{{ not a binding }}'')
   \<and> concat (map hnodeText (vueTree [HTMLElement ''pre'' [] [TextNode ''code1''],
                      HTMLElement ''p'' [] [TextNode ''{{ not a binding }}'']]))
     = ''<pre v-pre="true">code1</pre><p>{{ not a binding }}</p>''
   \<and> vueStep (sampleEnv \<lparr> parse := (\<lambda>opts s. [HTMLElement ''pre'' [] [TextNode ''code1''],
                      HTMLElement ''p'' [] [TextNode ''{{ not a binding }}'']]) \<rparr>)
        ''a.md'' ''<pre>code1</pre><p>{{ not a binding }}</p>'' newExportedContent
     = Inr \<lparr> exports = ''export const VueComponent = { render: vueRender }\<newline>'',
             contextCode = ''<pre v-pre="true">code1</pre><p>{{ not a binding }}</p>\<newline>'' \<rparr>\<close>
proof -
  let ?root = "[HTMLElement ''pre'' [] [TextNode ''code1''],
                      HTMLElement ''p'' [] [TextNode ''{{ not a binding }}'',
                         HTMLElement ''code'' [] [TextNode ''c''], HTMLElement ''pre'' [] []]]"
  have a: "hnode_at ?root [0] = Some (HTMLElement ''pre'' [] [TextNode ''code1''])"
    and b: "hnode_at ?root [1, 1] = Some (HTMLElement ''code'' [] [TextNode ''c''])"
    and c: "hnode_at ?root [1, 2] = Some (HTMLElement ''pre'' [] [])"
    and d: "hnode_at ?root [1, 0] = Some (TextNode ''{{ not a binding }}'')"
    by simp_all
  have e: \<open>concat (map hnodeText (vueTree [HTMLElement ''pre'' [] [TextNode ''code1''],
                      HTMLElement ''p'' [] [TextNode ''{{ not a binding }}'']]))
     = ''<pre v-pre="true">code1</pre><p>{{ not a binding }}</p>''\<close>
    by (simp add: vueTree_def markTopLevel_def rawAttrsText_def)
  let ?E = "sampleEnv \<lparr> parse := (\<lambda>opts s. [HTMLElement ''pre'' [] [TextNode ''code1''],
                      HTMLElement ''p'' [] [TextNode ''{{ not a binding }}'']]) \<rparr>"
  have f: \<open>compileTemplate ?E
         (concat (map (toString ?E)
            (vueTree (parse ?E (Some \<lparr> pre = True, script = True, comment = True, style = True \<rparr>)
                        ''<pre>code1</pre><p>{{ not a binding }}</p>''))))
         ''a.md'' = Inr ''<pre v-pre="true">code1</pre><p>{{ not a binding }}</p>''\<close>
    by (simp add: sampleEnv_def vueTree_def markTopLevel_def rawAttrsText_def)
  have g: \<open>vueStep ?E ''a.md'' ''<pre>code1</pre><p>{{ not a binding }}</p>'' newExportedContent
     = Inr \<lparr> exports = ''export const VueComponent = { render: vueRender }\<newline>'',
             contextCode = ''<pre v-pre="true">code1</pre><p>{{ not a binding }}</p>\<newline>'' \<rparr>\<close>
    using vue_directive [where E = ?E and path = "''a.md''"
        and rendered = \<open>''<pre>code1</pre><p>{{ not a binding }}</p>''\<close>
        and compiled = \<open>''<pre v-pre="true">code1</pre><p>{{ not a binding }}</p>''\<close>
        and ?c0.0 = newExportedContent] f
    by (simp add: addProperty_def newExportedContent_def sampleEnv_def)
  have a': "hnode_at (vueTree ?root) [0]
      = Some (HTMLElement ''pre'' [(''v-pre'', ''true'')] [TextNode ''code1''])"
    using vue_directive [where root = ?root and p = "[0]" and t = "''pre''" and as = "[]"
        and cs = "[TextNode ''code1'']" and d = "[]" and E = sampleEnv and rendered = "[]"
        and path = "[]" and compiled = "[]" and ?c0.0 = newExportedContent and e = "Error []"] a
    by simp
  have b': "hnode_at (vueTree ?root) [1, 1]
      = Some (HTMLElement ''code'' [(''v-pre'', ''true'')] [TextNode ''c''])"
    using vue_directive [where root = ?root and p = "[1, 1]" and t = "''code''" and as = "[]"
        and cs = "[TextNode ''c'']" and d = "[]" and E = sampleEnv and rendered = "[]"
        and path = "[]" and compiled = "[]" and ?c0.0 = newExportedContent and e = "Error []"] b
    by simp
  have c': "hnode_at (vueTree ?root) [1, 2] = Some (HTMLElement ''pre'' [] [])"
    using vue_directive [where root = ?root and p = "[1, 2]" and t = "''pre''" and as = "[]"
        and cs = "[]" and d = "[]" and E = sampleEnv and rendered = "[]"
        and path = "[]" and compiled = "[]" and ?c0.0 = newExportedContent and e = "Error []"] c
    by simp
  have d': "hnode_at (vueTree ?root) [1, 0] = Some (TextNode ''{{ not a binding }}'')"
    using vue_directive [where root = ?root and p = "[1, 0]" and t = "[]" and as = "[]"
        and cs = "[]" and d = "''{{ not a binding }}''" and E = sampleEnv and rendered = "[]"
        and path = "[]" and compiled = "[]" and ?c0.0 = newExportedContent and e = "Error []"] d
    by simp
  from a' b' c' d' e g show ?thesis
    by (intro conjI)
qed

section \<open>Properties of the React adapter\<close>

lemma dnode_at_map_react:
  "dnode_outside_code ns p = Some n \<Longrightarrow>
     dnode_at (map (markCodeAsPre_react outer) ns) p = Some (markCodeAsPre_react outer n)"
proof (induction ns p rule: dnode_outside_code.induct)
  case (3 ns i j p)
  from "3.prems" have i: "i < length ns"
    by (simp split: if_splits)
  from "3.prems" i obtain t as cs where e: "ns ! i = Element t as cs" and t: "t \<noteq> ''code''"
    and r: "dnode_outside_code cs (j # p) = Some n"
    by (cases "ns ! i") (auto split: if_splits)
  have "dnode_at (map (markCodeAsPre_react outer) cs) (j # p) = Some (markCodeAsPre_react outer n)"
    using "3.IH" [OF i e t r] .
  then show ?case
    using i e t by (simp add: Let_def)
qed (auto split: if_splits)

lemma react_plain: "plain n \<Longrightarrow> markCodeAsPre_react outer n = n"
proof (induction n)
  case (Element t as cs)
  then have "map (markCodeAsPre_react outer) cs = cs"
    by (auto simp: list_all_iff intro: map_idI)
  with Element.prems show ?case
    by (auto simp: Let_def split: option.splits)
qed auto

lemma react_other_tag:
  "t \<notin> set [''pre'', ''code''] \<Longrightarrow>
     markCodeAsPre_react outer (Element t as cs) = Element t as (map (markCodeAsPre_react outer) cs)"
  by (auto simp: Let_def split: option.splits)

text \<open>
  Claim C10. The React rewrite leaves an element whose tag is neither \<open>pre\<close> nor \<open>code\<close>
  with its tag and attributes, its children being the rewritten children; it returns
  text, comment and directive nodes as they are; a subtree without \<open>pre\<close> and \<open>code\<close>
  elements is returned unchanged; and the same holds at every path the walk reaches in
  a document.
\<close>

theorem react_frame:
  "(t \<notin> set [''pre'', ''code''] \<longrightarrow>
      markCodeAsPre_react outer (Element t as cs)
        = Element t as (map (markCodeAsPre_react outer) cs))
   \<and> markCodeAsPre_react outer (Text d) = Text d
   \<and> markCodeAsPre_react outer (Comment d) = Comment d
   \<and> markCodeAsPre_react outer (Directive k d) = Directive k d
   \<and> (plain n \<longrightarrow> markCodeAsPre_react outer n = n)
   \<and> (dnode_outside_code root p = Some (Element t as cs) \<and> t \<notin> set [''pre'', ''code''] \<longrightarrow>
        dnode_at (map (markCodeAsPre_react outer) root) p
          = Some (Element t as (map (markCodeAsPre_react outer) cs)))
   \<and> (dnode_outside_code root p = Some (Text d) \<longrightarrow>
        dnode_at (map (markCodeAsPre_react outer) root) p = Some (Text d))
   \<and> (dnode_outside_code root p = Some (Comment d) \<longrightarrow>
        dnode_at (map (markCodeAsPre_react outer) root) p = Some (Comment d))"
  using react_other_tag [of t outer as cs] react_plain [of n outer]
    dnode_at_map_react [of root p "Element t as cs" outer]
    dnode_at_map_react [of root p "Text d" outer]
    dnode_at_map_react [of root p "Comment d" outer]
  by auto

theorem react_frame_witness:
  \<open>markCodeAsPre_react outerHTML
      (Element ''p'' [(''class'', ''lead'')]
         [Text ''a'', Comment ''c'', Element ''code'' [(''class'', ''x'')] [Text ''y'']])
     = Element ''p'' [(''class'', ''lead'')]
         [Text ''a'', Comment ''c'',
          Element ''code'' [(''className'', ''x''),
                           (''dangerouslySetInnerHTML'', ''vfm{{ __html: `y`}}vfm'')] []]
   \<and> markCodeAsPre_react outerHTML
        (Element ''div'' [(''class'', ''w'')] [Element ''em'' [] [Text ''t''], Comment ''c''])
     = Element ''div'' [(''class'', ''w'')] [Element ''em'' [] [Text ''t''], Comment ''c'']
   \<and> dnode_at (map (markCodeAsPre_react outerHTML)
        [Element ''pre'' [] [Element ''span'' [(''class'', ''s'')] [Text ''u'']]]) [0, 0]
     = Some (Element ''span'' [(''class'', ''s'')] [Text ''u''])
   \<and> dnode_at (map (markCodeAsPre_react outerHTML)
        [Element ''pre'' [] [Element ''span'' [(''class'', ''s'')] [Text ''u'']]]) [0, 0, 0]
     = Some (Text ''u'')\<close>
proof -
  let ?root = "[Element ''pre'' [] [Element ''span'' [(''class'', ''s'')] [Text ''u'']]]"
  have a: "dnode_outside_code ?root [0, 0] = Some (Element ''span'' [(''class'', ''s'')] [Text ''u''])"
    and b: "dnode_outside_code ?root [0, 0, 0] = Some (Text ''u'')"
    by simp_all
  have c: "plain (Element ''div'' [(''class'', ''w'')] [Element ''em'' [] [Text ''t''], Comment ''c''])"
    by simp
  show ?thesis
    using react_frame [of "''p''" outerHTML "[(''class'', ''lead'')]"
        "[Text ''a'', Comment ''c'', Element ''code'' [(''class'', ''x'')] [Text ''y'']]"]
      react_frame [where n = "Element ''div'' [(''class'', ''w'')] [Element ''em'' [] [Text ''t''], Comment ''c'']"
        and outer = outerHTML] c
      react_frame [where root = ?root and p = "[0, 0]" and t = "''span''" and as = "[(''class'', ''s'')]"
        and cs = "[Text ''u'']" and outer = outerHTML] a
      react_frame [where root = ?root and p = "[0, 0, 0]" and d = "''u''" and outer = outerHTML] b
    by (simp add: deleteAttribute_def)
qed

subsection \<open>Global substitution on texts\<close>








subsection \<open>Stripping the markers\<close>




subsection \<open>The rewritten elements and the emitted binding\<close>






end
